theory Spec2Isabelle
  imports Complex_Main "HOL-Library.AList" "HOL-Library.List_Lexorder" "HOL-Library.Char_ord"
begin

section \<open>Python values, errors and string helpers\<close>

text \<open>
  A Python \<open>str\<close> is modelled as a \<open>string\<close> with one \<open>char\<close> per code point, for
  ASCII text (code points below 128). Exceptions and \<open>sys.exit\<close> are values of
  \<open>py_error\<close>; a function that may raise returns \<open>py_error + 'a\<close>. \<open>RendererError\<close>
  stands for any \<open>Exception\<close> a job raises.
\<close>

datatype exit_arg = ExitCode int | ExitMsg string

datatype py_error =
    ValueError
  | TypeError
  | AttributeError string
  | ZeroDivisionError
  | OSError
  | RendererError string
  | KeyboardInterrupt
  | SystemExit exit_arg

text \<open>\<open>sys.exit(arg)\<close> raises \<open>SystemExit\<close>, which \<open>except Exception\<close> does not catch.\<close>

definition sys_exit :: "exit_arg \<Rightarrow> py_error + 'a" where
  "sys_exit a = Inl (SystemExit a)"

text \<open>\<open>s.split(sep)\<close> for a one-character separator: always at least one token.\<close>

fun split_on :: "char \<Rightarrow> string \<Rightarrow> string list" where
  "split_on sep [] = [[]]"
| "split_on sep (c # cs) =
     (if c = sep then [] # split_on sep cs
      else (case split_on sep cs of
              [] \<Rightarrow> [[c]]
            | t # ts \<Rightarrow> (c # t) # ts))"

text \<open>The ASCII characters that \<open>str.isspace\<close> accepts.\<close>

definition is_space :: "char \<Rightarrow> bool" where
  "is_space c = (of_char c \<in> set [9, 10, 11, 12, 13, 28, 29, 30, 31, 32 :: nat])"

definition py_strip :: "string \<Rightarrow> string" where
  "py_strip s = rev (dropWhile is_space (rev (dropWhile is_space s)))"

definition is_digit :: "char \<Rightarrow> bool" where
  "is_digit c = (48 \<le> (of_char c :: nat) \<and> (of_char c :: nat) \<le> 57)"

definition digit_val :: "char \<Rightarrow> nat" where
  "digit_val c = of_char c - 48"

text \<open>
  The digit part of an \<open>int(...)\<close> literal in base 10: at least one digit, single
  underscores allowed between digits only. The flag says that the previous character was
  a digit.
\<close>

fun int_digits :: "bool \<Rightarrow> nat \<Rightarrow> string \<Rightarrow> nat option" where
  "int_digits prev acc [] = (if prev then Some acc else None)"
| "int_digits prev acc (c # cs) =
     (if is_digit c then int_digits True (acc * 10 + digit_val c) cs
      else if c = CHR ''_'' \<and> prev then int_digits False acc cs
      else None)"

text \<open>\<open>int(s)\<close> on a string: surrounding whitespace, an optional sign, then the digits;
  \<open>None\<close> stands for the \<open>ValueError\<close> the builtin raises.\<close>

definition py_int :: "string \<Rightarrow> int option" where
  "py_int s =
     (case py_strip s of
        [] \<Rightarrow> None
      | c # cs \<Rightarrow>
          if c = CHR ''-'' then map_option (\<lambda>n. - int n) (int_digits False 0 cs)
          else if c = CHR ''+'' then map_option int (int_digits False 0 cs)
          else map_option int (int_digits False 0 (c # cs)))"

section \<open>run.py: parse_margins\<close>

text \<open>The list comprehension \<open>[int(m) for m in margins]\<close>: the first token that is not an
  integer literal raises.\<close>

fun int_each :: "string list \<Rightarrow> py_error + int list" where
  "int_each [] = Inr []"
| "int_each (m # ms) =
     (case py_int m of
        None \<Rightarrow> Inl ValueError
      | Some v \<Rightarrow> (case int_each ms of Inl e \<Rightarrow> Inl e | Inr vs \<Rightarrow> Inr (v # vs)))"


section \<open>The file system as the loaders see it\<close>

text \<open>
  \<open>str(Path(s))\<close> for a POSIX path: empty and \<open>.\<close> components are dropped, the root is
  kept (two leading slashes exactly stay two), and the empty path is \<open>.\<close>.
\<close>

fun join_with :: "string \<Rightarrow> string list \<Rightarrow> string" where
  "join_with sep [] = []"
| "join_with sep [x] = x"
| "join_with sep (x # y # ys) = x @ sep @ join_with sep (y # ys)"

definition path_root :: "string \<Rightarrow> string" where
  "path_root s =
     (if take 2 s = ''//'' \<and> take 3 s \<noteq> ''///'' then ''//''
      else if take 1 s = ''/'' then ''/''
      else [])"

definition path_str :: "string \<Rightarrow> string" where
  "path_str s =
     (let parts = filter (\<lambda>c. c \<noteq> [] \<and> c \<noteq> ''.'') (split_on CHR ''/'' s);
          r = path_root s
      in if r = [] \<and> parts = [] then ''.'' else r @ join_with ''/'' parts)"

text \<open>
  The operating system is a parameter: what \<open>exists()\<close> and \<open>is_file()\<close> answer for a
  path, the children \<open>glob('*')\<close> yields for it (as \<open>str\<close>, in the order the system
  enumerates them), and the lines that iterating over the opened file gives, decoded as
  \<open>utf-8-sig\<close> with undecodable bytes ignored (\<open>None\<close> when \<open>open\<close> raises).
\<close>

record filesystem =
  fs_exists :: "string \<Rightarrow> bool"
  fs_is_file :: "string \<Rightarrow> bool"
  fs_glob_star :: "string \<Rightarrow> string list"
  fs_open_lines :: "string \<Rightarrow> string list option"

section \<open>run.py: load_fonts and load_corpus\<close>

definition load_fonts :: "filesystem \<Rightarrow> string \<Rightarrow> py_error + string list" where
  "load_fonts fs font_or_dir =
     (let p = path_str (''fonts/'' @ font_or_dir) in
      if \<not> fs_exists fs p then
        sys_exit (ExitMsg (''[Error] Font path does not exist: '' @ font_or_dir))
      else if fs_is_file fs p then Inr [p]
      else
        (let font_paths = filter (fs_is_file fs) (fs_glob_star fs p) in
         if font_paths = [] then
           sys_exit (ExitMsg (''[Error] No font files found in directory: '' @ font_or_dir))
         else Inr font_paths))"

definition load_corpus :: "filesystem \<Rightarrow> string \<Rightarrow> py_error + string list" where
  "load_corpus fs corpus_file_path =
     (let p = path_str corpus_file_path in
      if \<not> fs_exists fs p then
        sys_exit (ExitMsg (''[Error] Corpus file not found: '' @ corpus_file_path))
      else
        (case fs_open_lines fs p of
           None \<Rightarrow> Inl OSError
         | Some lines \<Rightarrow>
             Inr (map py_strip (filter (\<lambda>line. py_strip line \<noteq> []) lines))))"

text \<open>A font directory that the system enumerates as \<open>b.ttf\<close>, then \<open>a.ttf\<close>.\<close>

definition fs_two_fonts :: filesystem where
  "fs_two_fonts =
     \<lparr>fs_exists = (\<lambda>p. p \<in> set [''fonts/en'', ''fonts/en/b.ttf'', ''fonts/en/a.ttf'']),
      fs_is_file = (\<lambda>p. p \<in> set [''fonts/en/b.ttf'', ''fonts/en/a.ttf'']),
      fs_glob_star =
        (\<lambda>p. if p = ''fonts/en'' then [''fonts/en/b.ttf'', ''fonts/en/a.ttf''] else []),
      fs_open_lines = (\<lambda>p. None)\<rparr>"

text \<open>A corpus file that exists and holds an empty line and a line of blanks.\<close>

definition fs_blank_corpus :: filesystem where
  "fs_blank_corpus =
     \<lparr>fs_exists = (\<lambda>p. p = ''texts/blank.txt''),
      fs_is_file = (\<lambda>p. p = ''texts/blank.txt''),
      fs_glob_star = (\<lambda>p. []),
      fs_open_lines =
        (\<lambda>p. if p = ''texts/blank.txt'' then Some [[CHR 0x0A], ''   '' @ [CHR 0x0A]]
             else None)\<rparr>"

section \<open>Dynamic values, the argument namespace and the configuration\<close>

datatype pyval = PNone | PBool bool | PInt int | PFloat real | PStr string

text \<open>Truth value of an object in a condition.\<close>

fun truthy :: "pyval \<Rightarrow> bool" where
  "truthy PNone = False"
| "truthy (PBool b) = b"
| "truthy (PInt n) = (n \<noteq> 0)"
| "truthy (PFloat x) = (x \<noteq> 0)"
| "truthy (PStr s) = (s \<noteq> [])"

text \<open>
  \<open>args\<close> is the namespace \<open>parse_args\<close> returns, attribute name to value; an option that
  was not given on the command line holds \<open>None\<close> (\<open>PNone\<close>), a \<open>store_true\<close> flag holds a
  bool. The configuration keeps the order of the YAML document: sections in order, each
  with its keys in order. Printing is not modelled.
\<close>

type_synonym namespace = "string \<Rightarrow> pyval option"
type_synonym cfg_section = "(string \<times> pyval) list"
type_synonym config = "(string \<times> cfg_section) list"

definition then_do :: "py_error + 'a \<Rightarrow> ('a \<Rightarrow> py_error + 'b) \<Rightarrow> py_error + 'b" where
  "then_do m f = (case m of Inl e \<Rightarrow> Inl e | Inr x \<Rightarrow> f x)"

definition getattr :: "namespace \<Rightarrow> string \<Rightarrow> py_error + pyval" where
  "getattr ns k = (case ns k of None \<Rightarrow> Inl (AttributeError k) | Some v \<Rightarrow> Inr v)"

text \<open>\<open>hasattr(args, k) and getattr(args, k) is not None\<close>.\<close>

definition is_set :: "namespace \<Rightarrow> string \<Rightarrow> bool" where
  "is_set ns k = (ns k \<noteq> None \<and> ns k \<noteq> Some PNone)"

text \<open>\<open>str.lower\<close> and \<open>str.upper\<close> change the ASCII letters only (see the convention on
  strings above).\<close>

definition lower_char :: "char \<Rightarrow> char" where
  "lower_char c =
     (case map_of (zip ''ABCDEFGHIJKLMNOPQRSTUVWXYZ'' ''abcdefghijklmnopqrstuvwxyz'') c of
        None \<Rightarrow> c
      | Some d \<Rightarrow> d)"


definition py_lower :: "string \<Rightarrow> string" where
  "py_lower s = map lower_char s"


section \<open>run.py: apply_quick_start_settings\<close>

text \<open>\<open>min(4, w)\<close>: comparing with \<open>None\<close> or a string raises \<open>TypeError\<close>.\<close>

fun py_min4 :: "pyval \<Rightarrow> py_error + pyval" where
  "py_min4 (PInt n) = Inr (PInt (min 4 n))"
| "py_min4 (PBool b) = Inr (PBool b)"
| "py_min4 (PFloat x) = Inr (if x < 4 then PFloat x else PInt 4)"
| "py_min4 PNone = Inl TypeError"
| "py_min4 (PStr s) = Inl TypeError"

definition apply_quick_start_settings :: "filesystem \<Rightarrow> namespace \<Rightarrow> py_error + namespace" where
  "apply_quick_start_settings fs args =
     (let args1 = args(''count'' \<mapsto> PInt 100) in
      then_do (case args1 ''num_workers'' of
                 None \<Rightarrow> Inr (PInt 4)
               | Some w \<Rightarrow> py_min4 w)
        (\<lambda>nw.
           let args2 = args1(''num_workers'' \<mapsto> nw) in
           if fs_exists fs (path_str ''texts/sample_chinese.txt'') then
             Inr (args2(''corpus'' \<mapsto> PStr ''texts/sample_chinese.txt''))
           else if fs_exists fs (path_str ''texts/sample_english.txt'') then
             Inr (args2(''corpus'' \<mapsto> PStr ''texts/sample_english.txt'',
                        ''language'' \<mapsto> PStr ''en'',
                        ''fonts'' \<mapsto> PStr ''en''))
           else Inr args2))"

section \<open>run.py: apply_command_line_overrides\<close>

definition override_mapping :: "(string \<times> string \<times> string) list" where
  "override_mapping =
     [(''output_dir'', ''FILE_SETTINGS'', ''OUTPUT_DIR''),
      (''language'', ''TEXT_SETTINGS'', ''LANGUAGE''),
      (''corpus'', ''TEXT_SETTINGS'', ''CORPUS''),
      (''count'', ''OTHER_SETTINGS'', ''COUNT''),
      (''fonts'', ''FILE_SETTINGS'', ''FONTS''),
      (''size'', ''TEXT_SETTINGS'', ''SIZE''),
      (''color'', ''TEXT_SETTINGS'', ''COLOR''),
      (''width'', ''IMAGE_FORMAT_SETTINGS'', ''WIDTH''),
      (''height'', ''TEXT_SETTINGS'', ''HEIGHT''),
      (''extension'', ''FILE_SETTINGS'', ''EXTENSION''),
      (''margins'', ''IMAGE_FORMAT_SETTINGS'', ''MARGINS''),
      (''skew_angle'', ''DISTORTION_SETTINGS'', ''SKEW_ANGLE''),
      (''num_workers'', ''OTHER_SETTINGS'', ''NUM_WORKERS'')]"

text \<open>\<open>setattr(getattr(cfg, section_name), config_key, v)\<close>: a missing section raises.\<close>

definition set_option :: "config \<Rightarrow> string \<Rightarrow> string \<Rightarrow> pyval \<Rightarrow> py_error + config" where
  "set_option cfg section_name config_key v =
     (case map_of cfg section_name of
        None \<Rightarrow> Inl (AttributeError section_name)
      | Some sec \<Rightarrow> Inr (AList.update section_name (AList.update config_key v sec) cfg))"

fun apply_mapping ::
  "namespace \<Rightarrow> (string \<times> string \<times> string) list \<Rightarrow> config \<Rightarrow> py_error + config" where
  "apply_mapping args [] cfg = Inr cfg"
| "apply_mapping args ((arg_name, section_name, config_key) # rest) cfg =
     (if is_set args arg_name then
        then_do (set_option cfg section_name config_key (the (args arg_name)))
          (apply_mapping args rest)
      else apply_mapping args rest cfg)"

definition apply_command_line_overrides :: "namespace \<Rightarrow> config \<Rightarrow> py_error + config" where
  "apply_command_line_overrides args cfg =
     then_do (apply_mapping args override_mapping cfg) (\<lambda>cfg1.
     then_do (getattr args ''no_skew'') (\<lambda>no_skew.
     then_do (if truthy no_skew then
                then_do (set_option cfg1 ''DISTORTION_SETTINGS'' ''SKEW_ANGLE'' (PInt 0))
                  (\<lambda>c. set_option c ''DISTORTION_SETTINGS'' ''RANDOM_SKEW'' (PBool False))
              else Inr cfg1) (\<lambda>cfg2.
     then_do (getattr args ''color'') (\<lambda>color.
       if truthy color then
         (case color of
            PStr s \<Rightarrow>
              if take 1 s \<noteq> ''('' then
                set_option cfg2 ''TEXT_SETTINGS'' ''COLOR'' (PStr (''('' @ s @ '')''))
              else Inr cfg2
          | _ \<Rightarrow> Inl (AttributeError ''startswith''))
       else Inr cfg2))))"

section \<open>run.py: main, steps 3 to 5 (resolving the settings)\<close>

text \<open>Step 5: every configuration option is written into \<open>args\<close> under its lower-case
  name, unless \<open>args\<close> already holds a value other than \<open>None\<close> there.\<close>

definition flatten_item :: "string \<times> pyval \<Rightarrow> namespace \<Rightarrow> namespace" where
  "flatten_item kv args =
     (let k = py_lower (fst kv) in
      if \<not> (args k \<noteq> None) \<or> args k = Some PNone then args(k \<mapsto> snd kv) else args)"

definition flatten_config :: "config \<Rightarrow> namespace \<Rightarrow> namespace" where
  "flatten_config cfg args = fold flatten_item (concat (map snd cfg)) args"

definition main_resolve :: "filesystem \<Rightarrow> namespace \<Rightarrow> config \<Rightarrow> py_error + namespace" where
  "main_resolve fs args cfg =
     then_do (getattr args ''quick_start'') (\<lambda>quick_start.
     then_do (if truthy quick_start then apply_quick_start_settings fs args else Inr args) (\<lambda>args1.
     then_do (apply_command_line_overrides args1 cfg) (\<lambda>cfg1.
       Inr (flatten_config cfg1 args1))))"

section \<open>run.py: main, steps 11 and 13 (colour and job parameters)\<close>

text \<open>\<open>s.strip(chars)\<close>.\<close>

definition py_strip_chars :: "string \<Rightarrow> string \<Rightarrow> string" where
  "py_strip_chars chars s =
     rev (dropWhile (\<lambda>c. c \<in> set chars) (rev (dropWhile (\<lambda>c. c \<in> set chars) s)))"

text \<open>Step 11: \<open>tuple(map(int, args.color.strip("()").split(",")))\<close>; whatever it raises
  is caught and ends the run with exit status 1. The palette is this one colour.\<close>

definition main_font_colors :: "namespace \<Rightarrow> py_error + int list list" where
  "main_font_colors args =
     (case args ''color'' of
        Some (PStr s) \<Rightarrow>
          (case int_each (split_on CHR '','' (py_strip_chars ''()'' s)) of
             Inl e \<Rightarrow> sys_exit (ExitCode 1)
           | Inr font_color \<Rightarrow> Inr [font_color])
      | _ \<Rightarrow> sys_exit (ExitCode 1))"

text \<open>The parameter tuple handed to \<open>FakeTextDataGenerator.generate\<close>, in its order.\<close>

record image_param =
  ip_index :: nat
  ip_text :: string
  ip_fonts :: "string list"
  ip_output_dir :: string
  ip_cursive :: int
  ip_size :: pyval
  ip_extension :: pyval
  ip_skew_angle :: pyval
  ip_width :: pyval
  ip_color :: "int list"
  ip_orientation :: pyval
  ip_space_width :: pyval
  ip_margins :: pyval
  ip_fit :: pyval
  ip_stroke_width :: pyval
  ip_stroke_fill :: pyval
  ip_height :: pyval

text \<open>One pass of the loop of step 13, for index \<open>i < len(args.strings)\<close>:
  \<open>i % num_colors\<close> raises for an empty palette, a missing attribute raises.\<close>

definition param_tuple ::
  "namespace \<Rightarrow> string list \<Rightarrow> string list \<Rightarrow> int list list \<Rightarrow> string \<Rightarrow> pyval \<Rightarrow> nat
     \<Rightarrow> py_error + image_param" where
  "param_tuple args strings font_paths font_colors output_dir margins_str i =
     (let num_colors = length font_colors in
      if num_colors = 0 then Inl ZeroDivisionError
      else
        (let color_idx = i mod num_colors in
         then_do (getattr args ''size'') (\<lambda>size.
         then_do (getattr args ''extension'') (\<lambda>extension.
         then_do (getattr args ''skew_angle'') (\<lambda>skew_angle.
         then_do (getattr args ''width'') (\<lambda>width.
         then_do (getattr args ''orientation'') (\<lambda>orientation.
         then_do (getattr args ''space_width'') (\<lambda>space_width.
         then_do (getattr args ''fit'') (\<lambda>fit.
         then_do (getattr args ''stroke_width'') (\<lambda>stroke_width.
         then_do (getattr args ''stroke_fill'') (\<lambda>stroke_fill.
         then_do (getattr args ''height'') (\<lambda>height.
           Inr \<lparr>ip_index = i,
                ip_text = strings ! i,
                ip_fonts = font_paths,
                ip_output_dir = output_dir,
                ip_cursive = 0,
                ip_size = size,
                ip_extension = extension,
                ip_skew_angle = skew_angle,
                ip_width = width,
                ip_color = font_colors ! color_idx,
                ip_orientation = orientation,
                ip_space_width = space_width,
                ip_margins = margins_str,
                ip_fit = fit,
                ip_stroke_width = stroke_width,
                ip_stroke_fill = stroke_fill,
                ip_height = height\<rparr>))))))))))))"

text \<open>The loop \<open>for i in range(total_count): ... image_params.append(param_tuple)\<close>.\<close>

fun collect_params :: "(nat \<Rightarrow> py_error + image_param) \<Rightarrow> nat list \<Rightarrow> py_error + image_param list" where
  "collect_params mk [] = Inr []"
| "collect_params mk (i # is) =
     then_do (mk i) (\<lambda>t. then_do (collect_params mk is) (\<lambda>ts. Inr (t # ts)))"

definition build_image_params ::
  "namespace \<Rightarrow> string list \<Rightarrow> string list \<Rightarrow> int list list \<Rightarrow> string
     \<Rightarrow> py_error + image_param list" where
  "build_image_params args strings font_paths font_colors output_dir =
     (let total_count = length strings in
      then_do (getattr args ''margins'') (\<lambda>margins_str.
        collect_params
          (param_tuple args strings font_paths font_colors output_dir margins_str)
          [0..<total_count]))"

section \<open>Concrete inputs\<close>

text \<open>What \<open>parse_args\<close> returns when no option is given, and with some options given.\<close>

definition default_args :: "(string \<times> pyval) list" where
  "default_args =
     [(''cfg'', PStr ''configs/config.yaml''), (''quick_start'', PBool False),
      (''output_dir'', PNone), (''language'', PNone), (''corpus'', PNone), (''count'', PNone),
      (''fonts'', PNone), (''size'', PNone), (''color'', PNone), (''width'', PNone),
      (''height'', PNone), (''extension'', PNone), (''margins'', PNone),
      (''skew_angle'', PNone), (''no_skew'', PBool False), (''num_workers'', PNone),
      (''verbose'', PBool False), (''dry_run'', PBool False), (''diagnose'', PBool False)]"

definition cli_args :: "(string \<times> pyval) list \<Rightarrow> namespace" where
  "cli_args given = map_of (given @ default_args)"

text \<open>The configuration that \<open>setup.py\<close> writes to \<open>configs/quick_start.yaml\<close>.\<close>

definition quick_config :: config where
  "quick_config =
     [(''FILE_SETTINGS'',
        [(''OUTPUT_DIR'', PStr ''output/images''), (''EXTENSION'', PStr ''jpg''),
         (''NAME_FORMAT'', PInt 2), (''FONTS'', PStr ''ch'')]),
      (''TEXT_SETTINGS'',
        [(''LANGUAGE'', PStr ''ch''), (''CORPUS'', PStr ''texts/sample_chinese.txt''),
         (''CORPUS_TYPE'', PStr ''CORPUS''), (''SIZE'', PInt 32), (''COLOR'', PStr ''(0,0,0)''),
         (''STROKE_WIDTH'', PInt 0), (''STROKE_FILL'', PStr ''(0,0,0)''), (''HEIGHT'', PInt 0)]),
      (''IMAGE_FORMAT_SETTINGS'',
        [(''WIDTH'', PInt 0), (''ORIENTATION'', PInt 0), (''SPACE_WIDTH'', PFloat 1),
         (''MARGINS'', PStr ''5,4,5,4''), (''FIT'', PBool False)]),
      (''DISTORTION_SETTINGS'',
        [(''SKEW_ANGLE'', PInt 5), (''RANDOM_SKEW'', PBool True)]),
      (''OTHER_SETTINGS'',
        [(''NUM_WORKERS'', PInt 4)])]"

text \<open>A working directory with neither sample corpus.\<close>

definition fs_empty :: filesystem where
  "fs_empty =
     \<lparr>fs_exists = (\<lambda>p. False), fs_is_file = (\<lambda>p. False),
      fs_glob_star = (\<lambda>p. []), fs_open_lines = (\<lambda>p. None)\<rparr>"

text \<open>\<open>--quick-start --count 500 --num_workers 2 --size 64\<close>.\<close>

definition args_quick_count :: namespace where
  "args_quick_count =
     cli_args [(''quick_start'', PBool True), (''count'', PInt 500),
               (''num_workers'', PInt 2), (''size'', PInt 64)]"

text \<open>\<open>--no_skew --skew_angle 15\<close>.\<close>

definition args_no_skew_15 :: namespace where
  "args_no_skew_15 = cli_args [(''no_skew'', PBool True), (''skew_angle'', PInt 15)]"

text \<open>Steps 3 to 5, 11 and 13 of \<open>main\<close> in sequence, for given sample strings, font paths
  and output directory: from the command line and the configuration to the job
  parameters.\<close>

definition main_image_params ::
  "filesystem \<Rightarrow> namespace \<Rightarrow> config \<Rightarrow> string list \<Rightarrow> string list \<Rightarrow> string
     \<Rightarrow> py_error + image_param list" where
  "main_image_params fs args cfg strings font_paths output_dir =
     then_do (main_resolve fs args cfg) (\<lambda>args1.
     then_do (main_font_colors args1) (\<lambda>font_colors.
       build_image_params args1 strings font_paths font_colors output_dir))"

text \<open>\<open>quick_config\<close> once \<open>apply_command_line_overrides\<close> has run for
  \<open>--no_skew --skew_angle 15\<close>: the loop wrote 15, the forced rule then wrote 0.\<close>

definition quick_config_no_skew :: config where
  "quick_config_no_skew =
     [(''FILE_SETTINGS'',
        [(''OUTPUT_DIR'', PStr ''output/images''), (''EXTENSION'', PStr ''jpg''),
         (''NAME_FORMAT'', PInt 2), (''FONTS'', PStr ''ch'')]),
      (''TEXT_SETTINGS'',
        [(''LANGUAGE'', PStr ''ch''), (''CORPUS'', PStr ''texts/sample_chinese.txt''),
         (''CORPUS_TYPE'', PStr ''CORPUS''), (''SIZE'', PInt 32), (''COLOR'', PStr ''(0,0,0)''),
         (''STROKE_WIDTH'', PInt 0), (''STROKE_FILL'', PStr ''(0,0,0)''), (''HEIGHT'', PInt 0)]),
      (''IMAGE_FORMAT_SETTINGS'',
        [(''WIDTH'', PInt 0), (''ORIENTATION'', PInt 0), (''SPACE_WIDTH'', PFloat 1),
         (''MARGINS'', PStr ''5,4,5,4''), (''FIT'', PBool False)]),
      (''DISTORTION_SETTINGS'',
        [(''SKEW_ANGLE'', PInt 0), (''RANDOM_SKEW'', PBool False)]),
      (''OTHER_SETTINGS'',
        [(''NUM_WORKERS'', PInt 4)])]"

text \<open>The value of one attribute of a resolved namespace, when resolution succeeded.\<close>

definition attr_of_result :: "py_error + namespace \<Rightarrow> string \<Rightarrow> py_error + pyval option" where
  "attr_of_result r k = (case r of Inl e \<Rightarrow> Inl e | Inr ns \<Rightarrow> Inr (ns k))"

section \<open>run.py: main, step 10 (sample strings and the naming policy)\<close>



section \<open>run.py: main, step 14 (execution)\<close>

text \<open>
  \<open>FakeTextDataGenerator.generate\<close> is a parameter: for a job it either returns (\<open>None\<close>)
  or raises (\<open>Some e\<close>). The loop of the single-process branch calls it job by job; an
  exception leaves the loop. The result is the list of jobs it was called on, in order,
  and the exception that left the loop, if any.
\<close>

fun run_sequential ::
  "(image_param \<Rightarrow> py_error option) \<Rightarrow> image_param list \<Rightarrow> image_param list \<times> py_error option" where
  "run_sequential generate [] = ([], None)"
| "run_sequential generate (params # rest) =
     (case generate params of
        Some e \<Rightarrow> ([params], Some e)
      | None \<Rightarrow> (case run_sequential generate rest of (started, r) \<Rightarrow> (params # started, r)))"

text \<open>\<open>args.num_workers <= 1\<close>.\<close>

fun py_le1 :: "pyval \<Rightarrow> py_error + bool" where
  "py_le1 (PInt n) = Inr (n \<le> 1)"
| "py_le1 (PBool b) = Inr True"
| "py_le1 (PFloat x) = Inr (x \<le> 1)"
| "py_le1 PNone = Inl TypeError"
| "py_le1 (PStr s) = Inl TypeError"

text \<open>The handlers around the whole of step 14: \<open>KeyboardInterrupt\<close> exits with status 0,
  any \<open>Exception\<close> with status 1; \<open>SystemExit\<close> is neither and passes.\<close>

fun exit_of :: "py_error \<Rightarrow> exit_arg" where
  "exit_of KeyboardInterrupt = ExitCode 0"
| "exit_of (SystemExit a) = a"
| "exit_of e = ExitCode 1"

text \<open>Step 14. The worker pool of the other branch is a parameter. The result: the jobs
  that were started, and \<open>None\<close> when \<open>main\<close> goes on to its summary or the argument of the
  \<open>SystemExit\<close> that ends the process.\<close>

definition main_execute ::
  "(pyval \<Rightarrow> image_param list \<Rightarrow> image_param list \<times> py_error option)
     \<Rightarrow> (image_param \<Rightarrow> py_error option) \<Rightarrow> namespace \<Rightarrow> image_param list
     \<Rightarrow> image_param list \<times> exit_arg option" where
  "main_execute pool generate args image_params =
     (case then_do (getattr args ''num_workers'') (\<lambda>w. then_do (py_le1 w) (\<lambda>b. Inr (w, b))) of
        Inl e \<Rightarrow> ([], Some (exit_of e))
      | Inr (w, single) \<Rightarrow>
          (case (if single then run_sequential generate image_params else pool w image_params) of
             (started, r) \<Rightarrow> (started, map_option exit_of r)))"

text \<open>A job with a given index, and a renderer that fails on the job with index 0 only.\<close>

definition job_at :: "nat \<Rightarrow> image_param" where
  "job_at i =
     \<lparr>ip_index = i, ip_text = ''x'', ip_fonts = [''fonts/ch/f.ttf''],
      ip_output_dir = ''output/images'', ip_cursive = 0, ip_size = PInt 32,
      ip_extension = PStr ''jpg'', ip_skew_angle = PInt 0, ip_width = PInt 0,
      ip_color = [0, 0, 0], ip_orientation = PInt 0, ip_space_width = PFloat 1,
      ip_margins = PStr ''5,4,5,4'', ip_fit = PBool False, ip_stroke_width = PInt 0,
      ip_stroke_fill = PStr ''(0,0,0)'', ip_height = PInt 0\<rparr>"

definition fails_on_first :: "image_param \<Rightarrow> py_error option" where
  "fails_on_first params =
     (if ip_index params = 0 then Some (RendererError ''cannot render'') else None)"

definition no_pool :: "pyval \<Rightarrow> image_param list \<Rightarrow> image_param list \<times> py_error option" where
  "no_pool w image_params = ([], None)"

definition args_one_worker :: namespace where
  "args_one_worker = [''num_workers'' \<mapsto> PInt 1]"



section \<open>img_aug.py\<close>

text \<open>
  An image is its mode, its size and its channel values (each 0 to 255), in the order of
  \<open>np.asarray(img)\<close> flattened. Floats are modelled as reals; rounding is not modelled.

  The random sources are explicit. \<open>random.random()\<close> returns the next element of a
  sequence of numbers in \<open>[0, 1)\<close>. numpy's global generator returns the next standard
  normal variates \<open>z\<close>, and \<open>np.random.normal(loc, scale, shape)\<close> is \<open>loc + scale * z\<close> for
  each element: \<open>scale\<close> is the standard deviation of the result.
\<close>

record image =
  img_mode :: string
  img_size :: "nat \<times> nat"
  img_data :: "nat list"

record rng =
  rand_draws :: "nat \<Rightarrow> real"
  rand_pos :: nat
  normal_draws :: "nat \<Rightarrow> real"
  normal_pos :: nat

definition random_random :: "rng \<Rightarrow> real \<times> rng" where
  "random_random r = (rand_draws r (rand_pos r), r\<lparr>rand_pos := rand_pos r + 1\<rparr>)"

text \<open>\<open>random.uniform(a, b)\<close> is \<open>a + (b - a) * random()\<close>.\<close>

definition random_uniform :: "real \<Rightarrow> real \<Rightarrow> rng \<Rightarrow> real \<times> rng" where
  "random_uniform a b r = (case random_random r of (u, r') \<Rightarrow> (a + (b - a) * u, r'))"

definition np_random_normal :: "real \<Rightarrow> real \<Rightarrow> nat \<Rightarrow> rng \<Rightarrow> real list \<times> rng" where
  "np_random_normal loc scale n r =
     (map (\<lambda>k. loc + scale * normal_draws r (normal_pos r + k)) [0..<n],
      r\<lparr>normal_pos := normal_pos r + n\<rparr>)"

text \<open>The Pillow operations the stages call are parameters:
  \<open>img.filter(ImageFilter.GaussianBlur(radius))\<close>,
  \<open>ImageEnhance.Brightness(img).enhance(factor)\<close> and
  \<open>ImageEnhance.Contrast(img).enhance(factor)\<close>.\<close>

record pillow =
  filter_gaussian_blur :: "real \<Rightarrow> image \<Rightarrow> image"
  enhance_brightness :: "real \<Rightarrow> image \<Rightarrow> image"
  enhance_contrast :: "real \<Rightarrow> image \<Rightarrow> image"

definition rand_bool :: "real \<Rightarrow> rng \<Rightarrow> bool \<times> rng" where
  "rand_bool p r = (case random_random r of (u, r') \<Rightarrow> (u < p, r'))"

definition gaussian_blur :: "pillow \<Rightarrow> real \<Rightarrow> image \<Rightarrow> rng \<Rightarrow> image \<times> rng" where
  "gaussian_blur lib p img r =
     (case rand_bool p r of
        (fire, r1) \<Rightarrow>
          if \<not> fire then (img, r1)
          else (case random_uniform 0.3 1.5 r1 of
                  (radius, r2) \<Rightarrow> (filter_gaussian_blur lib radius img, r2)))"

definition brightness :: "pillow \<Rightarrow> real \<Rightarrow> image \<Rightarrow> rng \<Rightarrow> image \<times> rng" where
  "brightness lib p img r =
     (case rand_bool p r of
        (fire, r1) \<Rightarrow>
          if \<not> fire then (img, r1)
          else (case random_uniform 0.7 1.3 r1 of
                  (factor, r2) \<Rightarrow> (enhance_brightness lib factor img, r2)))"

definition contrast :: "pillow \<Rightarrow> real \<Rightarrow> image \<Rightarrow> rng \<Rightarrow> image \<times> rng" where
  "contrast lib p img r =
     (case rand_bool p r of
        (fire, r1) \<Rightarrow>
          if \<not> fire then (img, r1)
          else (case random_uniform 0.7 1.3 r1 of
                  (factor, r2) \<Rightarrow> (enhance_contrast lib factor img, r2)))"

text \<open>\<open>np.clip(x, 0, 255)\<close>, then \<open>astype(np.uint8)\<close>, which truncates.\<close>

definition clip_to_uint8 :: "real \<Rightarrow> nat" where
  "clip_to_uint8 x = nat \<lfloor>min 255 (max 0 x)\<rfloor>"

text \<open>The body of \<open>add_gaussian_noise\<close> once the stage fires.\<close>

definition noisy :: "real \<Rightarrow> image \<Rightarrow> rng \<Rightarrow> image \<times> rng" where
  "noisy var img r =
     (let arr = map real (img_data img) in
      case np_random_normal 0 var (length arr) r of
        (noise, r') \<Rightarrow>
          (img\<lparr>img_data := map clip_to_uint8 (map2 (+) arr noise)\<rparr>, r'))"

definition add_gaussian_noise :: "real \<Rightarrow> real \<Rightarrow> image \<Rightarrow> rng \<Rightarrow> image \<times> rng" where
  "add_gaussian_noise p var img r =
     (case rand_bool p r of
        (fire, r1) \<Rightarrow> if \<not> fire then (img, r1) else noisy var img r1)"

text \<open>The pipeline: \<open>_AUGS\<close> with the default arguments of the stages, and the loop
  \<open>for fn in _AUGS: img = fn(img)\<close>.\<close>

type_synonym aug = "image \<Rightarrow> rng \<Rightarrow> image \<times> rng"

definition AUGS :: "pillow \<Rightarrow> aug list" where
  "AUGS lib =
     [gaussian_blur lib 0.25, brightness lib 0.3, contrast lib 0.3, add_gaussian_noise 0.25 8.0]"

fun apply_each :: "aug list \<Rightarrow> image \<Rightarrow> rng \<Rightarrow> image \<times> rng" where
  "apply_each [] img r = (img, r)"
| "apply_each (fn # fns) img r = (case fn img r of (img', r') \<Rightarrow> apply_each fns img' r')"

definition apply_augmentations :: "pillow \<Rightarrow> image \<Rightarrow> rng \<Rightarrow> image \<times> rng" where
  "apply_augmentations lib img r = apply_each (AUGS lib) img r"

text \<open>Operations that tag the image, one pixel row of three channels, and a random source
  whose \<open>random()\<close> is always 0 and whose normal variates are 1, -1, 1, ...\<close>

definition tagging_pillow :: pillow where
  "tagging_pillow =
     \<lparr>filter_gaussian_blur = (\<lambda>radius img. img\<lparr>img_mode := img_mode img @ ''+blur''\<rparr>),
      enhance_brightness = (\<lambda>factor img. img\<lparr>img_mode := img_mode img @ ''+brightness''\<rparr>),
      enhance_contrast = (\<lambda>factor img. img\<lparr>img_mode := img_mode img @ ''+contrast''\<rparr>)\<rparr>"

definition three_channels :: image where
  "three_channels = \<lparr>img_mode = ''L'', img_size = (3, 1), img_data = [100, 0, 255]\<rparr>"

definition rng_zero :: rng where
  "rng_zero =
     \<lparr>rand_draws = (\<lambda>n. 0), rand_pos = 0,
      normal_draws = (\<lambda>n. if even n then 1 else - 1), normal_pos = 0\<rparr>"

section \<open>Properties\<close>

subsection \<open>Splitting and integer tokens\<close>









subsection \<open>Asset loaders\<close>

lemmas path_eval = path_str_def path_root_def

lemma load_corpus_all_blank:
  assumes "fs_exists fs (path_str f)" and "fs_open_lines fs (path_str f) = Some ls"
    and "\<forall>l \<in> set ls. py_strip l = []"
  shows "load_corpus fs f = Inr []"
proof -
  have "filter (\<lambda>line. py_strip line \<noteq> []) ls = []"
    using assms(3) by (simp add: filter_empty_conv)
  then show ?thesis
    using assms(1,2) by (simp add: load_corpus_def)
qed

text \<open>
  C4. A corpus file that exists and holds only blank lines: the loader returns the empty
  list, it does not fail. (The font loader, next to it, does stop on an empty result.)
\<close>

theorem load_corpus_blank_file_returns_empty:
  "load_corpus fs_blank_corpus ''texts/blank.txt'' = Inr []"
  by (simp add: load_corpus_def fs_blank_corpus_def path_eval py_strip_def is_space_def)

text \<open>
  C5, as the code has it. For a font path \<open>fonts/d\<close>: when it does not exist the loader
  exits with a message that carries \<open>d\<close>; when it is a directory whose enumeration has no
  duplicates and holds \<open>k\<close> regular files, the loader returns exactly those \<open>k\<close> paths,
  without duplicates, in the order of the enumeration (it does not sort them) if \<open>k > 0\<close>,
  and exits with a message that carries \<open>d\<close> if \<open>k = 0\<close>.
\<close>

theorem load_fonts_listing:
  assumes p: "p = path_str (''fonts/'' @ d)"
    and k: "k = card {f \<in> set (fs_glob_star fs p). fs_is_file fs f}"
  shows "(\<not> fs_exists fs p \<longrightarrow>
            load_fonts fs d =
              Inl (SystemExit (ExitMsg (''[Error] Font path does not exist: '' @ d))))
       \<and> (fs_exists fs p \<and> \<not> fs_is_file fs p \<and> distinct (fs_glob_star fs p) \<longrightarrow>
            (0 < k \<longrightarrow>
               (\<exists>fonts. load_fonts fs d = Inr fonts \<and> length fonts = k \<and> distinct fonts
                  \<and> fonts = filter (fs_is_file fs) (fs_glob_star fs p)))
          \<and> (k = 0 \<longrightarrow>
               load_fonts fs d =
                 Inl (SystemExit (ExitMsg (''[Error] No font files found in directory: '' @ d)))))"
proof (intro conjI impI)
  assume "\<not> fs_exists fs p"
  then show "load_fonts fs d =
      Inl (SystemExit (ExitMsg (''[Error] Font path does not exist: '' @ d)))"
    using p by (simp add: load_fonts_def sys_exit_def)
next
  let ?fonts = "filter (fs_is_file fs) (fs_glob_star fs p)"
  assume dir: "fs_exists fs p \<and> \<not> fs_is_file fs p \<and> distinct (fs_glob_star fs p)"
  have d: "distinct ?fonts" using dir by simp
  have "set ?fonts = {f \<in> set (fs_glob_star fs p). fs_is_file fs f}" by auto
  then have len: "length ?fonts = k"
    using d k by (metis distinct_card)
  {
    assume "0 < k"
    then have "?fonts \<noteq> []" using len by auto
    then have "load_fonts fs d = Inr ?fonts"
      using p dir by (simp add: load_fonts_def Let_def)
    then show "\<exists>fonts. load_fonts fs d = Inr fonts \<and> length fonts = k \<and> distinct fonts
            \<and> fonts = filter (fs_is_file fs) (fs_glob_star fs p)"
      using len d by simp
  }
  {
    assume "k = 0"
    then have "?fonts = []" using len by simp
    then show "load_fonts fs d =
            Inl (SystemExit (ExitMsg (''[Error] No font files found in directory: '' @ d)))"
      using p dir by (simp add: load_fonts_def Let_def sys_exit_def)
  }
qed

theorem load_fonts_listing_witness:
  "load_fonts fs_two_fonts ''en'' = Inr [''fonts/en/b.ttf'', ''fonts/en/a.ttf'']
   \<and> load_fonts fs_two_fonts ''ch'' =
       Inl (SystemExit (ExitMsg ''[Error] Font path does not exist: ch''))"
proof -
  have p: "''fonts/en'' = path_str (''fonts/'' @ ''en'')"
    by (simp add: path_eval)
  have "{f \<in> set (fs_glob_star fs_two_fonts ''fonts/en''). fs_is_file fs_two_fonts f}
      = {''fonts/en/b.ttf'', ''fonts/en/a.ttf''}"
    by (auto simp add: fs_two_fonts_def)
  then have k: "2 = card {f \<in> set (fs_glob_star fs_two_fonts ''fonts/en''). fs_is_file fs_two_fonts f}"
    by simp
  have q: "''fonts/ch'' = path_str (''fonts/'' @ ''ch'')"
    by (simp add: path_eval)
  show ?thesis
    using load_fonts_listing [OF p k] load_fonts_listing [OF q refl, of fs_two_fonts]
    by (simp add: fs_two_fonts_def)
qed

text \<open>
  C5 as stated fails: a directory enumerated as \<open>b.ttf\<close>, \<open>a.ttf\<close> is returned in that
  order, which is not sorted.
\<close>

theorem load_fonts_not_sorted:
  "load_fonts fs_two_fonts ''en'' = Inr [''fonts/en/b.ttf'', ''fonts/en/a.ttf'']
   \<and> \<not> sorted [''fonts/en/b.ttf'', ''fonts/en/a.ttf'']"
  by (simp add: load_fonts_def fs_two_fonts_def path_eval)

subsection \<open>Resolving the settings\<close>

lemma then_do_Inr: "then_do (Inr x) f = f x"
  by (simp add: then_do_def)

lemma then_do_Inl: "then_do (Inl e) f = Inl e"
  by (simp add: then_do_def)

text \<open>Evaluate the first computation before looking into the continuation.\<close>

lemma then_do_weak_cong: "m = m' \<Longrightarrow> then_do m f = then_do m' f"
  by simp

lemma then_do_eq_Inr: "then_do m f = Inr y \<longleftrightarrow> (\<exists>x. m = Inr x \<and> f x = Inr y)"
  by (cases m) (simp_all add: then_do_def)

lemma fold_keep_set:
  "s \<noteq> None \<Longrightarrow> s \<noteq> Some PNone \<Longrightarrow>
   fold (\<lambda>v s. if s = None \<or> s = Some PNone then Some v else s) vs s = s"
  by (induction vs) auto

lemma fold_flatten_item_lookup:
  "fold flatten_item items args k =
   fold (\<lambda>v s. if s = None \<or> s = Some PNone then Some v else s)
     (map snd (filter (\<lambda>kv. py_lower (fst kv) = k) items)) (args k)"
proof (induction items arbitrary: args)
  case Nil
  show ?case by simp
next
  case (Cons kv items)
  have step: "flatten_item kv args k =
      (if py_lower (fst kv) = k
       then (if args k = None \<or> args k = Some PNone then Some (snd kv) else args k)
       else args k)"
    by (auto simp add: flatten_item_def Let_def)
  show ?case
    by (simp add: Cons.IH step)
qed

lemma flatten_config_lookup:
  "flatten_config cfg args k =
   fold (\<lambda>v s. if s = None \<or> s = Some PNone then Some v else s)
     (map snd (filter (\<lambda>kv. py_lower (fst kv) = k) (concat (map snd cfg)))) (args k)"
  by (simp add: flatten_config_def fold_flatten_item_lookup)

lemma flatten_config_keeps_set:
  "is_set args k \<Longrightarrow> flatten_config cfg args k = args k"
  by (simp add: flatten_config_lookup is_set_def fold_keep_set)

lemma quick_start_effect:
  assumes "args ''num_workers'' = Some (PInt w)"
    and "apply_quick_start_settings fs args = Inr args1"
  shows "args1 ''count'' = Some (PInt 100)"
    and "args1 ''num_workers'' = Some (PInt (min 4 w))"
    and "k \<notin> {''count'', ''num_workers'', ''corpus'', ''language'', ''fonts''} \<Longrightarrow> args1 k = args k"
    and "\<not> fs_exists fs ''texts/sample_chinese.txt'' \<Longrightarrow> \<not> fs_exists fs ''texts/sample_english.txt''
           \<Longrightarrow> k \<notin> {''count'', ''num_workers''} \<Longrightarrow> args1 k = args k"
    and "fs_exists fs ''texts/sample_chinese.txt'' \<Longrightarrow> args1 ''corpus'' = Some (PStr ''texts/sample_chinese.txt'')"
  using assms
  by (auto simp add: apply_quick_start_settings_def then_do_Inr path_str_def path_root_def Let_def split: if_splits)

lemma resolve_quick_start:
  assumes qs: "args ''quick_start'' = Some (PBool True)"
    and nw: "args ''num_workers'' = Some (PInt w)"
    and res: "main_resolve fs args cfg = Inr args'"
  shows "args' ''count'' = Some (PInt 100)"
    and "args' ''num_workers'' = Some (PInt (min 4 w))"
    and "k \<notin> {''count'', ''num_workers'', ''corpus'', ''language'', ''fonts''} \<Longrightarrow> is_set args k
           \<Longrightarrow> args' k = args k"
proof -
  from res qs obtain args1 cfg1 where
      q: "apply_quick_start_settings fs args = Inr args1"
      and f: "args' = flatten_config cfg1 args1"
    by (auto simp add: main_resolve_def getattr_def then_do_eq_Inr)
  note e = quick_start_effect [OF nw q]
  show "args' ''count'' = Some (PInt 100)"
    using e(1) f by (simp add: flatten_config_keeps_set is_set_def)
  show "args' ''num_workers'' = Some (PInt (min 4 w))"
    using e(2) f by (simp add: flatten_config_keeps_set is_set_def)
  show "args' k = args k"
    if "k \<notin> {''count'', ''num_workers'', ''corpus'', ''language'', ''fonts''}" and "is_set args k"
  proof -
    have "args1 k = args k" using e(3) that(1) by simp
    then have "is_set args1 k" using that(2) by (simp add: is_set_def)
    then show ?thesis using f \<open>args1 k = args k\<close> by (simp add: flatten_config_keeps_set)
  qed
qed

lemmas resolve_eval = main_resolve_def apply_quick_start_settings_def apply_command_line_overrides_def
  override_mapping_def set_option_def then_do_Inr then_do_Inl getattr_def
  is_set_def cli_args_def default_args_def quick_config_def fs_empty_def
  path_str_def path_root_def

lemma resolve_quick_count_ok:
  "\<exists>a. main_resolve fs_empty args_quick_count quick_config = Inr a"
  by (simp add: args_quick_count_def resolve_eval cong: then_do_weak_cong conj_cong)

lemma args_quick_count_attrs:
  "args_quick_count ''quick_start'' = Some (PBool True)"
  "args_quick_count ''num_workers'' = Some (PInt 2)"
  "args_quick_count ''count'' = Some (PInt 500)"
  "args_quick_count ''size'' = Some (PInt 64)"
  by (simp_all add: args_quick_count_def cli_args_def default_args_def)

text \<open>
  C1, as the code has it. The quick-start preset runs before the overrides are copied
  into the configuration, but it writes into \<open>args\<close>, the same namespace that holds the
  explicit options. So, for a run with \<open>--quick-start\<close> and an explicit worker count \<open>w\<close>
  that resolves: the item count ends as 100 whatever count was given, the worker count
  ends as \<open>min(4, w)\<close>, and every explicit option that the preset does not write (all but
  count, worker count, corpus, language and fonts) ends with the value given.
\<close>

theorem quick_start_preset_overwrites:
  assumes "args ''quick_start'' = Some (PBool True)"
    and "args ''num_workers'' = Some (PInt w)"
    and "main_resolve fs args cfg = Inr args'"
  shows "args' ''count'' = Some (PInt 100)
       \<and> args' ''num_workers'' = Some (PInt (min 4 w))
       \<and> (\<forall>k. k \<notin> {''count'', ''num_workers'', ''corpus'', ''language'', ''fonts''} \<longrightarrow>
              is_set args k \<longrightarrow> args' k = args k)"
  using resolve_quick_start [OF assms] by blast

theorem quick_start_preset_overwrites_witness:
  "attr_of_result (main_resolve fs_empty args_quick_count quick_config) ''count''
      = Inr (Some (PInt 100))
   \<and> attr_of_result (main_resolve fs_empty args_quick_count quick_config) ''num_workers''
      = Inr (Some (PInt 2))
   \<and> attr_of_result (main_resolve fs_empty args_quick_count quick_config) ''size''
      = Inr (Some (PInt 64))"
proof -
  obtain a where a: "main_resolve fs_empty args_quick_count quick_config = Inr a"
    using resolve_quick_count_ok by blast
  have s: "is_set args_quick_count ''size''"
    by (simp add: is_set_def args_quick_count_attrs)
  have "''size'' \<notin> {''count'', ''num_workers'', ''corpus'', ''language'', ''fonts''}"
    by simp
  with s quick_start_preset_overwrites [OF args_quick_count_attrs(1) args_quick_count_attrs(2) a]
  have "a ''count'' = Some (PInt 100)" and "a ''num_workers'' = Some (PInt 2)"
    and "a ''size'' = Some (PInt 64)"
    by (simp_all add: args_quick_count_attrs)
  then show ?thesis
    by (simp add: a attr_of_result_def)
qed

text \<open>
  C1 as stated fails: \<open>--quick-start --count 500 --num_workers 2\<close> resolves to a count of
  100, the preset's value, not the 500 given.
\<close>

theorem quick_start_discards_explicit_count:
  "args_quick_count ''count'' = Some (PInt 500)
   \<and> attr_of_result (main_resolve fs_empty args_quick_count quick_config) ''count''
      = Inr (Some (PInt 100))"
proof -
  obtain a where a: "main_resolve fs_empty args_quick_count quick_config = Inr a"
    using resolve_quick_count_ok by blast
  have "a ''count'' = Some (PInt 100)"
    by (rule resolve_quick_start(1) [OF args_quick_count_attrs(1) args_quick_count_attrs(2) a])
  then show ?thesis
    by (simp add: a attr_of_result_def args_quick_count_attrs)
qed


lemma lower_char_table:
  "lower_char CHR ''A'' = CHR ''a''" "lower_char CHR ''B'' = CHR ''b''" "lower_char CHR ''C'' = CHR ''c''"
  "lower_char CHR ''D'' = CHR ''d''" "lower_char CHR ''E'' = CHR ''e''" "lower_char CHR ''F'' = CHR ''f''"
  "lower_char CHR ''G'' = CHR ''g''" "lower_char CHR ''H'' = CHR ''h''" "lower_char CHR ''I'' = CHR ''i''"
  "lower_char CHR ''J'' = CHR ''j''" "lower_char CHR ''K'' = CHR ''k''" "lower_char CHR ''L'' = CHR ''l''"
  "lower_char CHR ''M'' = CHR ''m''" "lower_char CHR ''N'' = CHR ''n''" "lower_char CHR ''O'' = CHR ''o''"
  "lower_char CHR ''P'' = CHR ''p''" "lower_char CHR ''Q'' = CHR ''q''" "lower_char CHR ''R'' = CHR ''r''"
  "lower_char CHR ''S'' = CHR ''s''" "lower_char CHR ''T'' = CHR ''t''" "lower_char CHR ''U'' = CHR ''u''"
  "lower_char CHR ''V'' = CHR ''v''" "lower_char CHR ''W'' = CHR ''w''" "lower_char CHR ''X'' = CHR ''x''"
  "lower_char CHR ''Y'' = CHR ''y''" "lower_char CHR ''Z'' = CHR ''z''" "lower_char CHR ''_'' = CHR ''_''"
  by (simp_all add: lower_char_def)

lemma flatten_config_lookup_lowered:
  "flatten_config cfg args k =
   fold (\<lambda>v s. if s = None \<or> s = Some PNone then Some v else s)
     (map snd (filter (\<lambda>kv. fst kv = k) (map (\<lambda>kv. (py_lower (fst kv), snd kv)) (concat (map snd cfg)))))
     (args k)"
  by (simp add: flatten_config_lookup filter_map comp_def)

lemma overrides_no_skew_15:
  "apply_command_line_overrides args_no_skew_15 quick_config = Inr quick_config_no_skew"
  by (simp add: args_no_skew_15_def quick_config_no_skew_def resolve_eval
      cong: then_do_weak_cong conj_cong)

lemma resolve_no_skew_15:
  "main_resolve fs_empty args_no_skew_15 quick_config =
     Inr (flatten_config quick_config_no_skew args_no_skew_15)"
proof -
  have "getattr args_no_skew_15 ''quick_start'' = Inr (PBool False)"
    by (simp add: getattr_def args_no_skew_15_def cli_args_def default_args_def)
  then show ?thesis
    by (simp add: main_resolve_def overrides_no_skew_15 then_do_Inr)
qed

lemma lowered_no_skew:
  "map (\<lambda>kv. (py_lower (fst kv), snd kv)) (concat (map snd quick_config_no_skew)) =
     [(''output_dir'', PStr ''output/images''), (''extension'', PStr ''jpg''),
      (''name_format'', PInt 2), (''fonts'', PStr ''ch''),
      (''language'', PStr ''ch''), (''corpus'', PStr ''texts/sample_chinese.txt''),
      (''corpus_type'', PStr ''CORPUS''), (''size'', PInt 32), (''color'', PStr ''(0,0,0)''),
      (''stroke_width'', PInt 0), (''stroke_fill'', PStr ''(0,0,0)''), (''height'', PInt 0),
      (''width'', PInt 0), (''orientation'', PInt 0), (''space_width'', PFloat 1),
      (''margins'', PStr ''5,4,5,4''), (''fit'', PBool False),
      (''skew_angle'', PInt 0), (''random_skew'', PBool False),
      (''num_workers'', PInt 4)]"
  by (simp add: quick_config_no_skew_def py_lower_def lower_char_table)

lemma resolved_no_skew_15_attrs:
  "flatten_config quick_config_no_skew args_no_skew_15 ''color'' = Some (PStr ''(0,0,0)'')"
  "flatten_config quick_config_no_skew args_no_skew_15 ''margins'' = Some (PStr ''5,4,5,4'')"
  "flatten_config quick_config_no_skew args_no_skew_15 ''size'' = Some (PInt 32)"
  "flatten_config quick_config_no_skew args_no_skew_15 ''extension'' = Some (PStr ''jpg'')"
  "flatten_config quick_config_no_skew args_no_skew_15 ''skew_angle'' = Some (PInt 15)"
  "flatten_config quick_config_no_skew args_no_skew_15 ''width'' = Some (PInt 0)"
  "flatten_config quick_config_no_skew args_no_skew_15 ''orientation'' = Some (PInt 0)"
  "flatten_config quick_config_no_skew args_no_skew_15 ''space_width'' = Some (PFloat 1)"
  "flatten_config quick_config_no_skew args_no_skew_15 ''fit'' = Some (PBool False)"
  "flatten_config quick_config_no_skew args_no_skew_15 ''stroke_width'' = Some (PInt 0)"
  "flatten_config quick_config_no_skew args_no_skew_15 ''stroke_fill'' = Some (PStr ''(0,0,0)'')"
  "flatten_config quick_config_no_skew args_no_skew_15 ''height'' = Some (PInt 0)"
  "flatten_config quick_config_no_skew args_no_skew_15 ''random_skew'' = Some (PBool False)"
  by (simp_all add: flatten_config_lookup_lowered lowered_no_skew args_no_skew_15_def
      cli_args_def default_args_def cong: conj_cong)

text \<open>Whatever the flags: an explicit skew angle is what the resolved \<open>args\<close> holds, since
  step 5 never replaces a value other than \<open>None\<close>.\<close>

lemma explicit_skew_angle_survives:
  assumes "args ''quick_start'' = Some (PBool False)"
    and "args ''skew_angle'' = Some (PInt a)"
    and "main_resolve fs args cfg = Inr args'"
  shows "args' ''skew_angle'' = Some (PInt a)"
proof -
  from assms(1,3) obtain cfg1 where "args' = flatten_config cfg1 args"
    by (auto simp add: main_resolve_def getattr_def then_do_eq_Inr)
  then show ?thesis
    using assms(2) by (simp add: flatten_config_keeps_set is_set_def)
qed

text \<open>
  C2. With \<open>--no_skew --skew_angle 15\<close> the forced rule sets the skew angle of the
  configuration to 0, but \<open>args.skew_angle\<close> still holds 15, step 5 of \<open>main\<close> leaves an
  attribute that is not \<open>None\<close> alone, and the job parameters are built from \<open>args\<close>:
  every job descriptor carries the skew angle 15.
\<close>

theorem no_skew_with_explicit_angle_builds_skewed_jobs:
  "main_image_params fs_empty args_no_skew_15 quick_config [''x'', ''y''] [''fonts/ch/f.ttf'']
       ''output/images''
     = Inr [\<lparr>ip_index = 0, ip_text = ''x'', ip_fonts = [''fonts/ch/f.ttf''],
             ip_output_dir = ''output/images'', ip_cursive = 0,
             ip_size = PInt 32, ip_extension = PStr ''jpg'',
             ip_skew_angle = PInt 15, ip_width = PInt 0, ip_color = [0, 0, 0],
             ip_orientation = PInt 0, ip_space_width = PFloat 1,
             ip_margins = PStr ''5,4,5,4'', ip_fit = PBool False,
             ip_stroke_width = PInt 0, ip_stroke_fill = PStr ''(0,0,0)'',
             ip_height = PInt 0\<rparr>,
            \<lparr>ip_index = 1, ip_text = ''y'', ip_fonts = [''fonts/ch/f.ttf''],
             ip_output_dir = ''output/images'', ip_cursive = 0,
             ip_size = PInt 32, ip_extension = PStr ''jpg'',
             ip_skew_angle = PInt 15, ip_width = PInt 0, ip_color = [0, 0, 0],
             ip_orientation = PInt 0, ip_space_width = PFloat 1,
             ip_margins = PStr ''5,4,5,4'', ip_fit = PBool False,
             ip_stroke_width = PInt 0, ip_stroke_fill = PStr ''(0,0,0)'',
             ip_height = PInt 0\<rparr>]"
proof -
  have colors: "main_font_colors (flatten_config quick_config_no_skew args_no_skew_15) = Inr [[0, 0, 0]]"
    by (simp add: main_font_colors_def resolved_no_skew_15_attrs py_strip_chars_def
        py_int_def py_strip_def is_space_def is_digit_def digit_val_def)
  show ?thesis
    by (simp add: main_image_params_def resolve_no_skew_15 then_do_Inr colors
        build_image_params_def param_tuple_def getattr_def resolved_no_skew_15_attrs)
qed

subsection \<open>Job parameters\<close>

lemma collect_params_nth:
  "(\<forall>i \<in> set idxs. \<exists>t. mk i = Inr t \<and> P i t) \<Longrightarrow>
   \<exists>ts. collect_params mk idxs = Inr ts \<and> length ts = length idxs
      \<and> (\<forall>n < length idxs. P (idxs ! n) (ts ! n))"
proof (induction idxs)
  case Nil
  show ?case by simp
next
  case (Cons i idxs)
  from Cons.prems obtain t where t: "mk i = Inr t" "P i t"
    by auto
  from Cons obtain ts where ts: "collect_params mk idxs = Inr ts" "length ts = length idxs"
      "\<forall>n < length idxs. P (idxs ! n) (ts ! n)"
    by auto
  have "collect_params mk (i # idxs) = Inr (t # ts)"
    by (simp add: t ts then_do_Inr)
  moreover have "\<forall>n < length (i # idxs). P ((i # idxs) ! n) ((t # ts) ! n)"
    using t(2) ts(3) by (auto simp add: nth_Cons split: nat.splits)
  ultimately show ?case
    using ts(2) by auto
qed

lemma param_tuple_color:
  assumes "\<forall>k \<in> set [''size'', ''extension'', ''skew_angle'', ''width'', ''orientation'',
             ''space_width'', ''fit'', ''stroke_width'', ''stroke_fill'', ''height'']. args k \<noteq> None"
    and "palette \<noteq> []"
  shows "\<exists>t. param_tuple args strings font_paths palette output_dir margins_str i = Inr t
           \<and> ip_color t = palette ! (i mod length palette) \<and> ip_index t = i
           \<and> ip_text t = strings ! i"
  using assms
  by (auto simp add: param_tuple_def getattr_def then_do_Inr Let_def)

text \<open>
  C6. When the attributes the job tuple reads are present in \<open>args\<close> and the palette is
  not empty, the job builder returns one job per sample string, and the job at position
  \<open>i\<close> carries the colour \<open>palette[i mod m]\<close> (with index \<open>i\<close> and the \<open>i\<close>-th string).
  In \<open>main\<close> the palette is the single parsed colour, so \<open>m = 1\<close>.
\<close>

theorem job_color_rotation:
  assumes attrs: "\<forall>k \<in> set [''margins'', ''size'', ''extension'', ''skew_angle'', ''width'',
             ''orientation'', ''space_width'', ''fit'', ''stroke_width'', ''stroke_fill'',
             ''height'']. args k \<noteq> None"
    and m: "palette \<noteq> []"
  shows "\<exists>jobs. build_image_params args strings font_paths palette output_dir = Inr jobs
           \<and> length jobs = length strings
           \<and> (\<forall>i < length strings.
                 ip_color (jobs ! i) = palette ! (i mod length palette)
                 \<and> ip_index (jobs ! i) = i \<and> ip_text (jobs ! i) = strings ! i)"
proof -
  from attrs obtain margins_str where ms: "args ''margins'' = Some margins_str"
    by auto
  let ?mk = "param_tuple args strings font_paths palette output_dir margins_str"
  let ?P = "\<lambda>i t. ip_color t = palette ! (i mod length palette) \<and> ip_index t = i
                 \<and> ip_text t = strings ! i"
  have each: "\<forall>i \<in> set [0..<length strings]. \<exists>t. ?mk i = Inr t \<and> ?P i t"
    using param_tuple_color [of args palette strings font_paths output_dir margins_str] attrs m
    by simp
  from collect_params_nth [of "[0..<length strings]" ?mk ?P, OF each]
  obtain ts where ts: "collect_params ?mk [0..<length strings] = Inr ts"
      "length ts = length strings"
      "\<forall>n < length strings. ?P ([0..<length strings] ! n) (ts ! n)"
    by auto
  have "build_image_params args strings font_paths palette output_dir = Inr ts"
    by (simp add: build_image_params_def getattr_def ms then_do_Inr ts(1))
  then show ?thesis
    using ts(2,3) by auto
qed

theorem job_color_rotation_witness:
  "\<exists>jobs. build_image_params (flatten_config quick_config_no_skew args_no_skew_15)
              [''a'', ''b'', ''c''] [''fonts/ch/f.ttf''] [[0, 0, 0], [255, 0, 0]] ''out'' = Inr jobs
     \<and> length jobs = 3
     \<and> ip_color (jobs ! 0) = [0, 0, 0] \<and> ip_color (jobs ! 1) = [255, 0, 0]
     \<and> ip_color (jobs ! 2) = [0, 0, 0]"
proof -
  have attrs: "\<forall>k \<in> set [''margins'', ''size'', ''extension'', ''skew_angle'', ''width'',
             ''orientation'', ''space_width'', ''fit'', ''stroke_width'', ''stroke_fill'',
             ''height'']. flatten_config quick_config_no_skew args_no_skew_15 k \<noteq> None"
    by (simp add: resolved_no_skew_15_attrs)
  have m: "[[0, 0, 0], [255, 0, 0]] \<noteq> ([] :: int list list)"
    by simp
  from job_color_rotation [OF attrs m, of "[''a'', ''b'', ''c'']" "[''fonts/ch/f.ttf'']" "''out''"]
  obtain jobs where j: "build_image_params (flatten_config quick_config_no_skew args_no_skew_15)
              [''a'', ''b'', ''c''] [''fonts/ch/f.ttf''] [[0, 0, 0], [255, 0, 0]] ''out'' = Inr jobs"
      "length jobs = length [''a'', ''b'', ''c'']"
      "\<forall>i < length [''a'', ''b'', ''c''].
          ip_color (jobs ! i) = [[0, 0, 0], [255, 0, 0]] ! (i mod length [[0, 0, 0], [255 :: int, 0, 0]])
          \<and> ip_index (jobs ! i) = i \<and> ip_text (jobs ! i) = [''a'', ''b'', ''c''] ! i"
    by blast
  have l2: "length [[0, 0, 0], [255 :: int, 0, 0]] = 2"
    by simp
  have "ip_color (jobs ! 0) = [0, 0, 0]"
    using j(3) [rule_format, of 0] unfolding l2 by simp
  moreover have "ip_color (jobs ! 1) = [255, 0, 0]"
    using j(3) [rule_format, of 1] unfolding l2 by simp
  moreover have "ip_color (jobs ! 2) = [0, 0, 0]"
    using j(3) [rule_format, of 2] unfolding l2 by simp
  ultimately show ?thesis
    using j(1,2) by simp
qed

subsection \<open>Sequential execution\<close>

lemma run_sequential_all_ok:
  "\<forall>p \<in> set jobs. generate p = None \<Longrightarrow> run_sequential generate jobs = (jobs, None)"
  by (induction jobs) auto

lemma run_sequential_first_failure:
  "k < length jobs \<Longrightarrow> \<forall>i < k. generate (jobs ! i) = None \<Longrightarrow> generate (jobs ! k) = Some e
     \<Longrightarrow> run_sequential generate jobs = (take (Suc k) jobs, Some e)"
proof (induction jobs arbitrary: k)
  case Nil
  then show ?case by simp
next
  case (Cons p jobs)
  show ?case
  proof (cases k)
    case 0
    with Cons.prems show ?thesis by simp
  next
    case (Suc k')
    with Cons.prems have "k' < length jobs" "\<forall>i < k'. generate (jobs ! i) = None"
        "generate (jobs ! k') = Some e" "generate p = None"
      by auto
    with Cons.IH [of k'] Suc show ?thesis by simp
  qed
qed

lemma main_execute_sequential:
  assumes "args ''num_workers'' = Some w" and "py_le1 w = Inr True"
  shows "main_execute pool generate args jobs =
           (fst (run_sequential generate jobs), map_option exit_of (snd (run_sequential generate jobs)))"
  using assms
  by (simp add: main_execute_def getattr_def then_do_Inr split: prod.splits)

text \<open>
  C3, as the code has it. In sequential mode (\<open>args.num_workers <= 1\<close>) the jobs run in
  order. When no job fails, all of them run and \<open>main\<close> goes on. When the job at position
  \<open>k\<close> is the first to fail, the jobs up to and including it have run, the handler around
  the whole loop catches the failure and ends the process (status 1 for an \<open>Exception\<close>, 0 for
  a keyboard interrupt), and no later job runs.
\<close>

theorem sequential_run_stops_at_first_failure:
  assumes "args ''num_workers'' = Some w" and "py_le1 w = Inr True"
  shows "((\<forall>p \<in> set jobs. generate p = None) \<longrightarrow>
            main_execute pool generate args jobs = (jobs, None))
       \<and> (k < length jobs \<and> (\<forall>i < k. generate (jobs ! i) = None) \<and> generate (jobs ! k) = Some e \<longrightarrow>
            main_execute pool generate args jobs = (take (Suc k) jobs, Some (exit_of e)))"
  using assms
  by (auto simp add: main_execute_sequential run_sequential_all_ok run_sequential_first_failure)

lemma job_at_index: "ip_index (job_at i) = i"
  by (simp add: job_at_def)

lemma args_one_worker_le1:
  "args_one_worker ''num_workers'' = Some (PInt 1)" "py_le1 (PInt 1) = Inr True"
  by (simp_all add: args_one_worker_def)

theorem sequential_run_stops_at_first_failure_witness:
  "main_execute no_pool fails_on_first args_one_worker [job_at 1, job_at 2] = ([job_at 1, job_at 2], None)
   \<and> main_execute no_pool fails_on_first args_one_worker [job_at 1, job_at 0, job_at 2]
       = ([job_at 1, job_at 0], Some (ExitCode 1))"
  using sequential_run_stops_at_first_failure [where args = args_one_worker and w = "PInt 1"
      and jobs = "[job_at 1, job_at 2]" and generate = fails_on_first and k = 0
      and e = "RendererError ''cannot render''" and pool = no_pool]
    sequential_run_stops_at_first_failure [where args = args_one_worker and w = "PInt 1"
      and jobs = "[job_at 1, job_at 0, job_at 2]" and generate = fails_on_first and k = 1
      and e = "RendererError ''cannot render''" and pool = no_pool]
  by (simp add: fails_on_first_def job_at_index args_one_worker_le1)

text \<open>
  C3 as stated fails: with two jobs of which the first fails, the second is never run and
  the process exits with status 1.
\<close>

theorem sequential_run_aborts_after_failed_job:
  "main_execute no_pool fails_on_first args_one_worker [job_at 0, job_at 1]
     = ([job_at 0], Some (ExitCode 1))"
  using main_execute_sequential [where args = args_one_worker and w = "PInt 1"
      and jobs = "[job_at 0, job_at 1]" and generate = fails_on_first and pool = no_pool]
  by (simp add: fails_on_first_def job_at_index args_one_worker_le1)

subsection \<open>The naming policy of the random strategy\<close>






subsection \<open>Augmentation pipeline\<close>

lemmas stage_defs = gaussian_blur_def brightness_def contrast_def add_gaussian_noise_def
  rand_bool_def random_uniform_def random_random_def

text \<open>
  C7. The pipeline has exactly four stages and runs them once each in the order Gaussian
  blur, brightness, contrast, additive noise, each on the image the stage before it
  returned. For a random source whose \<open>random()\<close> stays in \<open>[0, 1)\<close>: with probability 0 on
  every stage the result is the input image itself; with probability 1 on every stage the
  result is the noise applied to the contrast change of the brightness change of the blur
  of the input, the three parameters drawn in that order.
\<close>

theorem augmentation_pipeline_order:
  assumes "\<forall>n. 0 \<le> rand_draws r n \<and> rand_draws r n < 1"
  shows "length (AUGS lib) = 4
    \<and> apply_augmentations lib img r =
        (case gaussian_blur lib 0.25 img r of
           (img1, r1) \<Rightarrow>
             (case brightness lib 0.3 img1 r1 of
                (img2, r2) \<Rightarrow>
                  (case contrast lib 0.3 img2 r2 of
                     (img3, r3) \<Rightarrow> add_gaussian_noise 0.25 8 img3 r3)))
    \<and> fst (apply_each [gaussian_blur lib 0, brightness lib 0, contrast lib 0,
                       add_gaussian_noise 0 var] img r) = img
    \<and> fst (apply_each [gaussian_blur lib 1, brightness lib 1, contrast lib 1,
                       add_gaussian_noise 1 var] img r) =
        fst (noisy var
               (enhance_contrast lib (0.7 + (1.3 - 0.7) * rand_draws r (rand_pos r + 5))
                  (enhance_brightness lib (0.7 + (1.3 - 0.7) * rand_draws r (rand_pos r + 3))
                     (filter_gaussian_blur lib (0.3 + (1.5 - 0.3) * rand_draws r (rand_pos r + 1))
                        img)))
               (r\<lparr>rand_pos := rand_pos r + 7\<rparr>))"
proof (intro conjI)
  show "length (AUGS lib) = 4"
    by (simp add: AUGS_def)
  show "apply_augmentations lib img r =
        (case gaussian_blur lib 0.25 img r of
           (img1, r1) \<Rightarrow>
             (case brightness lib 0.3 img1 r1 of
                (img2, r2) \<Rightarrow>
                  (case contrast lib 0.3 img2 r2 of
                     (img3, r3) \<Rightarrow> add_gaussian_noise 0.25 8 img3 r3)))"
    by (simp add: apply_augmentations_def AUGS_def split: prod.splits)
  have never: "\<And>n. \<not> rand_draws r n < 0"
    using assms by (simp add: not_less)
  show "fst (apply_each [gaussian_blur lib 0, brightness lib 0, contrast lib 0,
                       add_gaussian_noise 0 var] img r) = img"
    by (simp add: stage_defs never)
  have always: "\<And>n. rand_draws r n < 1"
    using assms by simp
  show "fst (apply_each [gaussian_blur lib 1, brightness lib 1, contrast lib 1,
                       add_gaussian_noise 1 var] img r) =
        fst (noisy var
               (enhance_contrast lib (0.7 + (1.3 - 0.7) * rand_draws r (rand_pos r + 5))
                  (enhance_brightness lib (0.7 + (1.3 - 0.7) * rand_draws r (rand_pos r + 3))
                     (filter_gaussian_blur lib (0.3 + (1.5 - 0.3) * rand_draws r (rand_pos r + 1))
                        img)))
               (r\<lparr>rand_pos := rand_pos r + 7\<rparr>))"
    by (simp add: stage_defs always case_prod_beta numeral_eq_Suc)
qed

theorem augmentation_pipeline_order_witness:
  "fst (apply_each [gaussian_blur tagging_pillow 0, brightness tagging_pillow 0,
                    contrast tagging_pillow 0, add_gaussian_noise 0 8] three_channels rng_zero)
     = three_channels
   \<and> fst (apply_each [gaussian_blur tagging_pillow 1, brightness tagging_pillow 1,
                    contrast tagging_pillow 1, add_gaussian_noise 1 8] three_channels rng_zero)
     = \<lparr>img_mode = ''L+blur+brightness+contrast'', img_size = (3, 1), img_data = [108, 0, 255]\<rparr>"
proof -
  have range: "\<forall>n. 0 \<le> rand_draws rng_zero n \<and> rand_draws rng_zero n < 1"
    by (simp add: rng_zero_def)
  note t = augmentation_pipeline_order [OF range, of tagging_pillow three_channels 8]
  have up: "[0..<3] = [0, 1, 2]"
    by (simp add: upt_rec)
  have "fst (noisy 8
               (enhance_contrast tagging_pillow
                  (0.7 + (1.3 - 0.7) * rand_draws rng_zero (rand_pos rng_zero + 5))
                  (enhance_brightness tagging_pillow
                     (0.7 + (1.3 - 0.7) * rand_draws rng_zero (rand_pos rng_zero + 3))
                     (filter_gaussian_blur tagging_pillow
                        (0.3 + (1.5 - 0.3) * rand_draws rng_zero (rand_pos rng_zero + 1))
                        three_channels)))
               (rng_zero\<lparr>rand_pos := rand_pos rng_zero + 7\<rparr>))
      = \<lparr>img_mode = ''L+blur+brightness+contrast'', img_size = (3, 1), img_data = [108, 0, 255]\<rparr>"
    by (simp add: noisy_def np_random_normal_def rng_zero_def clip_to_uint8_def up
        tagging_pillow_def three_channels_def)
  with t [THEN conjunct2, THEN conjunct2, THEN conjunct2]
  have "fst (apply_each [gaussian_blur tagging_pillow 1, brightness tagging_pillow 1,
                    contrast tagging_pillow 1, add_gaussian_noise 1 8] three_channels rng_zero)
     = \<lparr>img_mode = ''L+blur+brightness+contrast'', img_size = (3, 1), img_data = [108, 0, 255]\<rparr>"
    by (simp only:)
  with t [THEN conjunct2, THEN conjunct2, THEN conjunct1] show ?thesis
    by (simp only: simp_thms)
qed

text \<open>Whatever the noise, every channel of a noisy image is at most 255 (and, as a natural
  number, at least 0).\<close>

lemma noisy_channels_clipped:
  "c \<in> set (img_data (fst (noisy var img r))) \<Longrightarrow> c \<le> 255"
proof -
  have "\<And>x. clip_to_uint8 x \<le> 255"
  proof -
    fix x :: real
    have "min 255 (max 0 x) \<le> 255"
      by simp
    then have "\<lfloor>min 255 (max 0 x)\<rfloor> \<le> \<lfloor>255 :: real\<rfloor>"
      by (rule floor_mono)
    then have "\<lfloor>min 255 (max 0 x)\<rfloor> \<le> 255"
      by simp
    then have "nat \<lfloor>min 255 (max 0 x)\<rfloor> \<le> 255"
      by linarith
    then show "clip_to_uint8 x \<le> 255"
      by (simp only: clip_to_uint8_def)
  qed
  then show "c \<in> set (img_data (fst (noisy var img r))) \<Longrightarrow> c \<le> 255"
    by (auto simp add: noisy_def np_random_normal_def)
qed

lemma sqrt8_bounds: "2 \<le> sqrt 8" "sqrt 8 < 3"
proof -
  show "2 \<le> sqrt 8"
    by (rule real_le_rsqrt) simp
  show "sqrt 8 < 3"
    by (rule real_less_lsqrt) simp_all
qed

text \<open>
  C8. The stage passes \<open>var\<close> as the second argument of \<open>np.random.normal\<close>, which is the
  standard deviation: with \<open>var = 8\<close> a standard normal variate of 1 moves a channel of
  100 to 108, and the results are clipped into 0 to 255. Noise of variance 8 has standard
  deviation \<open>sqrt 8\<close> and would move that channel to 102.
\<close>

theorem noise_scale_is_var_not_its_root:
  "img_data (fst (add_gaussian_noise 0.25 8 three_channels rng_zero)) = [108, 0, 255]
   \<and> clip_to_uint8 (100 + sqrt 8 * 1) = 102"
proof
  have up: "[0..<3] = [0, 1, 2]"
    by (simp add: upt_rec)
  show "img_data (fst (add_gaussian_noise 0.25 8 three_channels rng_zero)) = [108, 0, 255]"
    by (simp add: add_gaussian_noise_def rand_bool_def random_random_def noisy_def
        np_random_normal_def rng_zero_def three_channels_def clip_to_uint8_def up)
  have "\<lfloor>100 + sqrt 8\<rfloor> = 102"
    using sqrt8_bounds by (simp add: floor_eq_iff)
  then show "clip_to_uint8 (100 + sqrt 8 * 1) = 102"
    using sqrt8_bounds by (simp add: clip_to_uint8_def)
qed


end
